theory Spec2Isabelle
  imports Complex_Main "HOL-Library.AList" "HOL-Library.Sublist"
begin

section \<open>Values, documents and exceptions\<close>

text \<open>
  The service keeps job applications in one MongoDB collection (\<open>jobapplication\<close>) and
  passes documents around as Python dictionaries (\<open>Dict[str, Any]\<close>). A dictionary is an
  association list with unique keys in insertion order: \<open>AList.update\<close> is the
  assignment \<open>d[k] = v\<close> (an existing key keeps its place, a new key goes last),
  \<open>AList.delete\<close> is \<open>d.pop(k)\<close> and \<open>map_of\<close> is \<open>d.get(k)\<close>.
\<close>

text \<open>\<open>datetime.date\<close> and a naive \<open>datetime.datetime\<close> (no \<open>tzinfo\<close>, as
  \<open>datetime.utcnow()\<close> returns it).\<close>

record date =
  d_year :: nat
  d_month :: nat
  d_day :: nat

record datetime =
  year :: nat
  month :: nat
  day :: nat
  hour :: nat
  minute :: nat
  second :: nat
  microsecond :: nat

text \<open>An ObjectId is held by its text form \<open>str(oid)\<close>: the hexadecimal digits of its
  bytes, in lower case (24 digits for an identifier that the store assigns).\<close>

type_synonym objectid = string

datatype val =
    VNone
  | VStr string
  | VFloat real
  | VList "string list"
  | VDate date
  | VDatetime datetime
  | VObjectId objectid

type_synonym document = "(string \<times> val) list"

text \<open>
  Exceptions. The handlers build the detail of a 400 response as \<open>str(e)\<close>; the text of
  an exception is kept symbolic (\<open>Str e\<close>) rather than rendered. A request body that
  the validation layer refuses never reaches a handler: the framework answers it with
  \<open>RequestValidationError\<close>, which lists the failing fields.
\<close>

datatype verror =
    Missing | StringType | FloatParsing | DateParsing | ListType | GreaterThanEqual

datatype exn =
    HTTPException nat detail
  | RequestValidationError "(string \<times> verror) list"
  | InvalidId string
  | InvalidDocument string
  | TypeError string
  | Exception string
and detail =
    Detail string
  | Str exn

fun status_code :: "exn \<Rightarrow> nat option" where
  "status_code (HTTPException c d) = Some c"
| "status_code _ = None"

text \<open>Python truthiness of a value (\<open>if v:\<close>).\<close>

fun truthy :: "val \<Rightarrow> bool" where
  "truthy VNone = False"
| "truthy (VStr s) = (s \<noteq> [])"
| "truthy (VFloat r) = (r \<noteq> 0)"
| "truthy (VList xs) = (xs \<noteq> [])"
| "truthy (VDate d) = True"
| "truthy (VDatetime t) = True"
| "truthy (VObjectId oid) = True"

subsection \<open>\<open>datetime.isoformat()\<close>\<close>

definition digit :: "nat \<Rightarrow> char" where
  "digit n = ''0123456789'' ! (n mod 10)"

text \<open>\<open>pad w n\<close> is \<open>'%0wd' % n\<close> for a number of at most \<open>w\<close> digits.\<close>

primrec pad :: "nat \<Rightarrow> nat \<Rightarrow> string" where
  "pad 0 n = []"
| "pad (Suc w) n = pad w (n div 10) @ [digit n]"

definition isoformat :: "datetime \<Rightarrow> string" where
  "isoformat t =
     pad 4 (year t) @ ''-'' @ pad 2 (month t) @ ''-'' @ pad 2 (day t) @ ''T'' @
     pad 2 (hour t) @ '':'' @ pad 2 (minute t) @ '':'' @ pad 2 (second t) @
     (if microsecond t = 0 then [] else ''.'' @ pad 6 (microsecond t))"

subsection \<open>\<open>bson.ObjectId\<close>\<close>

definition is_hex :: "char \<Rightarrow> bool" where
  "is_hex c = (c \<in> set ''0123456789abcdefABCDEF'')"

text \<open>Case folding of the ASCII letters.\<close>

definition lower_char :: "char \<Rightarrow> char" where
  "lower_char c =
     (case map_of (zip ''ABCDEFGHIJKLMNOPQRSTUVWXYZ'' ''abcdefghijklmnopqrstuvwxyz'') c of
        Some l \<Rightarrow> l
      | None \<Rightarrow> c)"

definition lower :: "string \<Rightarrow> string" where
  "lower s = map lower_char s"

text \<open>
  \<open>bytes.fromhex(s)\<close>, with the bytes given by their hexadecimal digits in lower case:
  ASCII whitespace is skipped where a byte starts, and a byte is two hexadecimal digits
  next to each other; anything else is a \<open>ValueError\<close> (\<open>None\<close>).
\<close>

definition is_space :: "char \<Rightarrow> bool" where
  "is_space c = (c \<in> set [CHR 0x20, CHR 0x09, CHR 0x0A, CHR 0x0B, CHR 0x0C, CHR 0x0D])"

fun fromhex :: "string \<Rightarrow> string option" where
  "fromhex [] = Some []"
| "fromhex [c] = (if is_space c then Some [] else None)"
| "fromhex (c # c' # cs) =
     (if is_space c then fromhex (c' # cs)
      else if is_hex c \<and> is_hex c'
      then map_option (\<lambda>r. lower_char c # lower_char c' # r) (fromhex cs)
      else None)"

text \<open>
  \<open>ObjectId(s)\<close> for a string: a string of 24 characters that \<open>bytes.fromhex\<close> accepts
  gives the identifier of those bytes, anything else raises \<open>InvalidId\<close>.
\<close>

definition ObjectId :: "string \<Rightarrow> exn + objectid" where
  "ObjectId s =
     (if length s = 24
      then (case fromhex s of Some h \<Rightarrow> Inr h | None \<Rightarrow> Inl (InvalidId s))
      else Inl (InvalidId s))"

section \<open>Public form\<close>

text \<open>
  \<^verbatim>\<open>
  def to_public(doc):
      d = dict(doc)
      d["id"] = str(d.pop("_id")) if d.get("_id") else None
      for k, v in list(d.items()):
          if isinstance(v, datetime):
              d[k] = v.isoformat()
      return d
  \<close>
  Python's builtin \<open>str\<close> on an arbitrary value is the parameter \<open>str_of\<close>. A
  \<open>date\<close> is not a \<open>datetime\<close> and is left as it is.
\<close>

fun iso_value :: "val \<Rightarrow> val" where
  "iso_value (VDatetime t) = VStr (isoformat t)"
| "iso_value v = v"

definition to_public :: "(val \<Rightarrow> string) \<Rightarrow> document \<Rightarrow> document" where
  "to_public str_of doc =
     (let d = doc;
          d = (case map_of d ''_id'' of
                 None \<Rightarrow> AList.update ''id'' VNone d
               | Some v \<Rightarrow>
                   if truthy v
                   then AList.update ''id'' (VStr (str_of v)) (AList.delete ''_id'' d)
                   else AList.update ''id'' VNone d)
      in map (\<lambda>(k, v). (k, iso_value v)) d)"

section \<open>The store\<close>

text \<open>
  The module-level handle \<open>db\<close> is \<open>None\<close> when the store is not configured, and
  otherwise gives the collection \<open>jobapplication\<close>: the documents in the store's order.
  The driver's operations used by the handlers:
  \<open>find_one({"_id": oid})\<close>, \<open>update_one({"_id": oid}, {"$set": upd})\<close> with its
  \<open>matched_count\<close>, and \<open>delete_one({"_id": oid})\<close> with its \<open>deleted_count\<close>.
\<close>

type_synonym collection = "document list"
type_synonym db = "collection option"

definition has_id :: "objectid \<Rightarrow> document \<Rightarrow> bool" where
  "has_id oid d = (map_of d ''_id'' = Some (VObjectId oid))"

definition find_one :: "objectid \<Rightarrow> collection \<Rightarrow> document option" where
  "find_one oid coll = find (has_id oid) coll"

text \<open>
  What the driver sends is BSON: a \<open>datetime\<close> is kept to the millisecond, a
  \<open>datetime.date\<close> cannot be encoded (\<open>InvalidDocument\<close>), every other value is kept as
  it is.
\<close>

definition millis :: "datetime \<Rightarrow> datetime" where
  "millis t = t\<lparr>microsecond := microsecond t div 1000 * 1000\<rparr>"

fun encodable :: "val \<Rightarrow> bool" where
  "encodable (VDate d) = False"
| "encodable v = True"

fun stored_value :: "val \<Rightarrow> val" where
  "stored_value (VDatetime t) = VDatetime (millis t)"
| "stored_value v = v"

definition bson_encode :: "document \<Rightarrow> exn + document" where
  "bson_encode doc =
     (if list_all (\<lambda>(k, v). encodable v) doc then Inr (map (\<lambda>(k, v). (k, stored_value v)) doc)
      else Inl (InvalidDocument ''cannot encode object''))"

text \<open>\<open>$set\<close>: every pair of the update document is assigned, in its order.\<close>

definition set_fields :: "document \<Rightarrow> document \<Rightarrow> document" where
  "set_fields upd d = fold (\<lambda>(k, v) acc. AList.update k v acc) upd d"

fun store_update :: "objectid \<Rightarrow> document \<Rightarrow> collection \<Rightarrow> nat \<times> collection" where
  "store_update oid upd [] = (0, [])"
| "store_update oid upd (d # ds) =
     (if has_id oid d then (1, set_fields upd d # ds)
      else (case store_update oid upd ds of (n, ds') \<Rightarrow> (n, d # ds')))"

definition update_one :: "objectid \<Rightarrow> document \<Rightarrow> collection \<Rightarrow> exn + nat \<times> collection" where
  "update_one oid upd coll =
     (case bson_encode upd of
        Inl e \<Rightarrow> Inl e
      | Inr enc \<Rightarrow> Inr (store_update oid enc coll))"

fun delete_one :: "objectid \<Rightarrow> collection \<Rightarrow> nat \<times> collection" where
  "delete_one oid [] = (0, [])"
| "delete_one oid (d # ds) =
     (if has_id oid d then (1, ds)
      else (case delete_one oid ds of (n, ds') \<Rightarrow> (n, d # ds')))"

section \<open>Validation layer\<close>

text \<open>
  A request body is a JSON object; the validation layer (pydantic) turns it into a model
  instance or refuses it. How a JSON value is read as a number or as a calendar date is
  the library's business: the two readers are parameters (\<open>None\<close>: cannot be parsed).
\<close>

datatype json =
    JNull
  | JBool bool
  | JNum real
  | JStr string
  | JArr "json list"
  | JObj "(string \<times> json) list"

type_synonym body = "(string \<times> json) list"

record readers =
  float_of :: "json \<Rightarrow> real option"
  date_of :: "json \<Rightarrow> date option"

text \<open>One validator per annotation: \<open>Inl\<close> the error of the field, \<open>Inr\<close> its value.\<close>

definition required_str :: "body \<Rightarrow> string \<Rightarrow> verror + string" where
  "required_str b k =
     (case map_of b k of None \<Rightarrow> Inl Missing | Some (JStr s) \<Rightarrow> Inr s | Some _ \<Rightarrow> Inl StringType)"

definition default_str :: "string \<Rightarrow> body \<Rightarrow> string \<Rightarrow> verror + string" where
  "default_str dflt b k =
     (case map_of b k of None \<Rightarrow> Inr dflt | Some (JStr s) \<Rightarrow> Inr s | Some _ \<Rightarrow> Inl StringType)"

definition optional_str :: "string option \<Rightarrow> body \<Rightarrow> string \<Rightarrow> verror + string option" where
  "optional_str dflt b k =
     (case map_of b k of
        None \<Rightarrow> Inr dflt
      | Some JNull \<Rightarrow> Inr None
      | Some (JStr s) \<Rightarrow> Inr (Some s)
      | Some _ \<Rightarrow> Inl StringType)"

definition optional_float :: "readers \<Rightarrow> body \<Rightarrow> string \<Rightarrow> verror + real option" where
  "optional_float R b k =
     (case map_of b k of
        None \<Rightarrow> Inr None
      | Some JNull \<Rightarrow> Inr None
      | Some j \<Rightarrow> (case float_of R j of None \<Rightarrow> Inl FloatParsing | Some r \<Rightarrow> Inr (Some r)))"

text \<open>\<open>Field(None, ge=0)\<close>: the constraint is checked on a value that was parsed.\<close>

definition optional_float_ge0 :: "readers \<Rightarrow> body \<Rightarrow> string \<Rightarrow> verror + real option" where
  "optional_float_ge0 R b k =
     (case optional_float R b k of
        Inl e \<Rightarrow> Inl e
      | Inr None \<Rightarrow> Inr None
      | Inr (Some r) \<Rightarrow> if r \<ge> 0 then Inr (Some r) else Inl GreaterThanEqual)"

definition optional_date :: "readers \<Rightarrow> body \<Rightarrow> string \<Rightarrow> verror + date option" where
  "optional_date R b k =
     (case map_of b k of
        None \<Rightarrow> Inr None
      | Some JNull \<Rightarrow> Inr None
      | Some j \<Rightarrow> (case date_of R j of None \<Rightarrow> Inl DateParsing | Some d \<Rightarrow> Inr (Some d)))"

fun json_str :: "json \<Rightarrow> string option" where
  "json_str (JStr s) = Some s"
| "json_str _ = None"

definition str_list :: "json \<Rightarrow> verror + string list" where
  "str_list j =
     (case j of
        JArr xs \<Rightarrow>
          if list_all (\<lambda>x. json_str x \<noteq> None) xs then Inr (List.map_filter json_str xs)
          else Inl StringType
      | _ \<Rightarrow> Inl ListType)"

definition default_list :: "body \<Rightarrow> string \<Rightarrow> verror + string list" where
  "default_list b k = (case map_of b k of None \<Rightarrow> Inr [] | Some j \<Rightarrow> str_list j)"

definition optional_list :: "body \<Rightarrow> string \<Rightarrow> verror + string list option" where
  "optional_list b k =
     (case map_of b k of
        None \<Rightarrow> Inr None
      | Some JNull \<Rightarrow> Inr None
      | Some j \<Rightarrow> (case str_list j of Inl e \<Rightarrow> Inl e | Inr xs \<Rightarrow> Inr (Some xs)))"

definition err :: "string \<Rightarrow> verror + 'a \<Rightarrow> (string \<times> verror) list" where
  "err k r = (case r of Inl e \<Rightarrow> [(k, e)] | Inr _ \<Rightarrow> [])"

subsection \<open>The create schema (\<open>JobApplication\<close>, \<open>CreateJobApplication\<close>)\<close>

record JobApplication =
  ja_company :: string
  ja_position :: string
  ja_location :: "string option"
  ja_job_link :: "string option"
  ja_source :: "string option"
  ja_status :: string
  ja_applied_date :: "date option"
  ja_follow_up_date :: "date option"
  ja_salary_min :: "real option"
  ja_salary_max :: "real option"
  ja_contact_name :: "string option"
  ja_contact_email :: "string option"
  ja_resume_version :: "string option"
  ja_priority :: "string option"
  ja_tags :: "string list"
  ja_notes :: "string option"

text \<open>The errors of all fields are collected; the instance exists when there is none.\<close>

definition create_errors :: "readers \<Rightarrow> body \<Rightarrow> (string \<times> verror) list" where
  "create_errors R b =
     err ''company'' (required_str b ''company'') @
     err ''position'' (required_str b ''position'') @
     err ''location'' (optional_str None b ''location'') @
     err ''job_link'' (optional_str None b ''job_link'') @
     err ''source'' (optional_str None b ''source'') @
     err ''status'' (default_str ''applied'' b ''status'') @
     err ''applied_date'' (optional_date R b ''applied_date'') @
     err ''follow_up_date'' (optional_date R b ''follow_up_date'') @
     err ''salary_min'' (optional_float_ge0 R b ''salary_min'') @
     err ''salary_max'' (optional_float_ge0 R b ''salary_max'') @
     err ''contact_name'' (optional_str None b ''contact_name'') @
     err ''contact_email'' (optional_str None b ''contact_email'') @
     err ''resume_version'' (optional_str None b ''resume_version'') @
     err ''priority'' (optional_str (Some ''medium'') b ''priority'') @
     err ''tags'' (default_list b ''tags'') @
     err ''notes'' (optional_str None b ''notes'')"

definition CreateJobApplication :: "readers \<Rightarrow> body \<Rightarrow> exn + JobApplication" where
  "CreateJobApplication R b =
     (if create_errors R b \<noteq> [] then Inl (RequestValidationError (create_errors R b))
      else Inr \<lparr>
        ja_company = projr (required_str b ''company''),
        ja_position = projr (required_str b ''position''),
        ja_location = projr (optional_str None b ''location''),
        ja_job_link = projr (optional_str None b ''job_link''),
        ja_source = projr (optional_str None b ''source''),
        ja_status = projr (default_str ''applied'' b ''status''),
        ja_applied_date = projr (optional_date R b ''applied_date''),
        ja_follow_up_date = projr (optional_date R b ''follow_up_date''),
        ja_salary_min = projr (optional_float_ge0 R b ''salary_min''),
        ja_salary_max = projr (optional_float_ge0 R b ''salary_max''),
        ja_contact_name = projr (optional_str None b ''contact_name''),
        ja_contact_email = projr (optional_str None b ''contact_email''),
        ja_resume_version = projr (optional_str None b ''resume_version''),
        ja_priority = projr (optional_str (Some ''medium'') b ''priority''),
        ja_tags = projr (default_list b ''tags''),
        ja_notes = projr (optional_str None b ''notes'') \<rparr>)"



subsection \<open>The update schema (\<open>UpdateJobApplication\<close>)\<close>

text \<open>
  Every field is \<open>Optional[...] = None\<close>, with no constraint; the two dates are text here.
  The instance remembers which fields the body named (\<open>model_fields_set\<close>).
\<close>

record UpdateJobApplication =
  u_company :: "string option"
  u_position :: "string option"
  u_location :: "string option"
  u_job_link :: "string option"
  u_source :: "string option"
  u_status :: "string option"
  u_applied_date :: "string option"
  u_follow_up_date :: "string option"
  u_salary_min :: "real option"
  u_salary_max :: "real option"
  u_contact_name :: "string option"
  u_contact_email :: "string option"
  u_resume_version :: "string option"
  u_priority :: "string option"
  u_tags :: "string list option"
  u_notes :: "string option"
  model_fields_set :: "string list"

definition update_fields :: "string list" where
  "update_fields =
     [''company'', ''position'', ''location'', ''job_link'', ''source'', ''status'',
      ''applied_date'', ''follow_up_date'', ''salary_min'', ''salary_max'', ''contact_name'',
      ''contact_email'', ''resume_version'', ''priority'', ''tags'', ''notes'']"

definition update_errors :: "readers \<Rightarrow> body \<Rightarrow> (string \<times> verror) list" where
  "update_errors R b =
     err ''company'' (optional_str None b ''company'') @
     err ''position'' (optional_str None b ''position'') @
     err ''location'' (optional_str None b ''location'') @
     err ''job_link'' (optional_str None b ''job_link'') @
     err ''source'' (optional_str None b ''source'') @
     err ''status'' (optional_str None b ''status'') @
     err ''applied_date'' (optional_str None b ''applied_date'') @
     err ''follow_up_date'' (optional_str None b ''follow_up_date'') @
     err ''salary_min'' (optional_float R b ''salary_min'') @
     err ''salary_max'' (optional_float R b ''salary_max'') @
     err ''contact_name'' (optional_str None b ''contact_name'') @
     err ''contact_email'' (optional_str None b ''contact_email'') @
     err ''resume_version'' (optional_str None b ''resume_version'') @
     err ''priority'' (optional_str None b ''priority'') @
     err ''tags'' (optional_list b ''tags'') @
     err ''notes'' (optional_str None b ''notes'')"

definition parse_update :: "readers \<Rightarrow> body \<Rightarrow> exn + UpdateJobApplication" where
  "parse_update R b =
     (if update_errors R b \<noteq> [] then Inl (RequestValidationError (update_errors R b))
      else Inr \<lparr>
        u_company = projr (optional_str None b ''company''),
        u_position = projr (optional_str None b ''position''),
        u_location = projr (optional_str None b ''location''),
        u_job_link = projr (optional_str None b ''job_link''),
        u_source = projr (optional_str None b ''source''),
        u_status = projr (optional_str None b ''status''),
        u_applied_date = projr (optional_str None b ''applied_date''),
        u_follow_up_date = projr (optional_str None b ''follow_up_date''),
        u_salary_min = projr (optional_float R b ''salary_min''),
        u_salary_max = projr (optional_float R b ''salary_max''),
        u_contact_name = projr (optional_str None b ''contact_name''),
        u_contact_email = projr (optional_str None b ''contact_email''),
        u_resume_version = projr (optional_str None b ''resume_version''),
        u_priority = projr (optional_str None b ''priority''),
        u_tags = projr (optional_list b ''tags''),
        u_notes = projr (optional_str None b ''notes''),
        model_fields_set = filter (\<lambda>k. map_of b k \<noteq> None) update_fields \<rparr>)"

text \<open>
  \<open>payload.model_dump(exclude_none=True)\<close>: the fields whose value is not \<open>None\<close>, in
  the order of declaration. \<open>model_fields_set\<close> is not consulted.
\<close>

definition update_items :: "UpdateJobApplication \<Rightarrow> (string \<times> val option) list" where
  "update_items p =
     [(''company'', map_option VStr (u_company p)),
      (''position'', map_option VStr (u_position p)),
      (''location'', map_option VStr (u_location p)),
      (''job_link'', map_option VStr (u_job_link p)),
      (''source'', map_option VStr (u_source p)),
      (''status'', map_option VStr (u_status p)),
      (''applied_date'', map_option VStr (u_applied_date p)),
      (''follow_up_date'', map_option VStr (u_follow_up_date p)),
      (''salary_min'', map_option VFloat (u_salary_min p)),
      (''salary_max'', map_option VFloat (u_salary_max p)),
      (''contact_name'', map_option VStr (u_contact_name p)),
      (''contact_email'', map_option VStr (u_contact_email p)),
      (''resume_version'', map_option VStr (u_resume_version p)),
      (''priority'', map_option VStr (u_priority p)),
      (''tags'', map_option VList (u_tags p)),
      (''notes'', map_option VStr (u_notes p))]"

definition exclude_none :: "(string \<times> val option) list \<Rightarrow> document" where
  "exclude_none items = List.map_filter (\<lambda>(k, v). map_option (Pair k) v) items"

definition model_dump_exclude_none :: "UpdateJobApplication \<Rightarrow> document" where
  "model_dump_exclude_none p = exclude_none (update_items p)"

section \<open>Request handlers\<close>

text \<open>
  A handler returns \<open>Inl\<close> the exception it raises or \<open>Inr\<close> its response (the status
  code of the route's decorator and the returned body), together with the store handle
  after the call. The clock reading \<open>datetime.utcnow()\<close> is the parameter \<open>now\<close>.
\<close>

datatype 'a response = Response nat 'a

definition not_configured :: exn where
  "not_configured = HTTPException 500 (Detail ''Database not configured'')"

definition not_found :: exn where
  "not_found = HTTPException 404 (Detail ''Application not found'')"

text \<open>
  \<^verbatim>\<open>
  def update_application(app_id, payload):
      if db is None:
          raise HTTPException(status_code=500, detail="Database not configured")
      try:
          update_dict = {k: v for k, v in payload.model_dump(exclude_none=True).items()}
          if not update_dict:
              raise HTTPException(status_code=400, detail="No fields to update")
          update_dict["updated_at"] = datetime.utcnow()
          res = db.jobapplication.update_one({"_id": ObjectId(app_id)}, {"$set": update_dict})
          if res.matched_count == 0:
              raise HTTPException(status_code=404, detail="Application not found")
          doc = db.jobapplication.find_one({"_id": ObjectId(app_id)})
          return to_public(doc)
      except HTTPException:
          raise
      except Exception as e:
          raise HTTPException(status_code=400, detail=str(e))
  \<close>
  \<open>to_public(None)\<close> raises \<open>TypeError\<close> at \<open>dict(None)\<close>.
\<close>

definition none_not_iterable :: exn where
  "none_not_iterable = TypeError ''NoneType''"

definition update_application ::
  "(val \<Rightarrow> string) \<Rightarrow> datetime \<Rightarrow> db \<Rightarrow> string \<Rightarrow> UpdateJobApplication
     \<Rightarrow> (exn + document response) \<times> db" where
  "update_application str_of now db app_id payload =
     (case db of
        None \<Rightarrow> (Inl not_configured, db)
      | Some coll \<Rightarrow>
          let update_dict = model_dump_exclude_none payload in
          if update_dict = [] then (Inl (HTTPException 400 (Detail ''No fields to update'')), db)
          else
            let update_dict = AList.update ''updated_at'' (VDatetime now) update_dict in
            (case ObjectId app_id of
               Inl e \<Rightarrow> (Inl (HTTPException 400 (Str e)), db)
             | Inr oid \<Rightarrow>
                 (case update_one oid update_dict coll of
                    Inl e \<Rightarrow> (Inl (HTTPException 400 (Str e)), db)
                  | Inr (matched_count, coll') \<Rightarrow>
                      if matched_count = 0 then (Inl not_found, Some coll')
                      else
                        (case find_one oid coll' of
                           None \<Rightarrow> (Inl (HTTPException 400 (Str none_not_iterable)), Some coll')
                         | Some doc \<Rightarrow> (Inr (Response 200 (to_public str_of doc)), Some coll')))))"

text \<open>
  \<^verbatim>\<open>
  def delete_application(app_id):
      if db is None:
          raise HTTPException(status_code=500, detail="Database not configured")
      try:
          res = db.jobapplication.delete_one({"_id": ObjectId(app_id)})
          if res.deleted_count == 0:
              raise HTTPException(status_code=404, detail="Application not found")
          return
      except HTTPException:
          raise
      except Exception as e:
          raise HTTPException(status_code=400, detail=str(e))
  \<close>
  The route answers 204; the handler returns \<open>None\<close>, so there is no body.
\<close>

definition delete_application :: "db \<Rightarrow> string \<Rightarrow> (exn + document option response) \<times> db" where
  "delete_application db app_id =
     (case db of
        None \<Rightarrow> (Inl not_configured, db)
      | Some coll \<Rightarrow>
          (case ObjectId app_id of
             Inl e \<Rightarrow> (Inl (HTTPException 400 (Str e)), db)
           | Inr oid \<Rightarrow>
               (case delete_one oid coll of
                  (deleted_count, coll') \<Rightarrow>
                    if deleted_count = 0 then (Inl not_found, Some coll')
                    else (Inr (Response 204 None), Some coll'))))"

text \<open>The route \<open>PATCH /api/applications/{app_id}\<close>: the body is validated, then handled.\<close>

definition patch_application ::
  "readers \<Rightarrow> (val \<Rightarrow> string) \<Rightarrow> datetime \<Rightarrow> db \<Rightarrow> string \<Rightarrow> body
     \<Rightarrow> (exn + document response) \<times> db" where
  "patch_application R str_of now db app_id b =
     (case parse_update R b of
        Inl e \<Rightarrow> (Inl e, db)
      | Inr payload \<Rightarrow> update_application str_of now db app_id payload)"

subsection \<open>Listing: the filter document and what it selects\<close>





















subsection \<open>Creating\<close>

text \<open>
  \<^verbatim>\<open>
  def create_application(payload):
      collection = "jobapplication"
      try:
          inserted_id = create_document(collection, payload)
          doc = db[collection].find_one({"_id": ObjectId(inserted_id)})
          return to_public(doc)
      except Exception as e:
          raise HTTPException(status_code=400, detail=str(e))
  \<close>
  \<open>create_document\<close> is a parameter: it raises or returns the text of the identifier, and
  leaves the store handle as \<open>db'\<close>. Subscripting a handle that is \<open>None\<close> raises
  \<open>TypeError\<close>, before \<open>ObjectId\<close> is called.
\<close>

definition not_subscriptable :: exn where
  "not_subscriptable = TypeError ''NoneType''"

definition create_application ::
  "(val \<Rightarrow> string) \<Rightarrow> (db \<Rightarrow> string \<Rightarrow> JobApplication \<Rightarrow> (exn + string) \<times> db) \<Rightarrow> db
     \<Rightarrow> JobApplication \<Rightarrow> (exn + document response) \<times> db" where
  "create_application str_of create_doc db payload =
     (case create_doc db ''jobapplication'' payload of
        (Inl e, db') \<Rightarrow> (Inl (HTTPException 400 (Str e)), db')
      | (Inr inserted_id, db') \<Rightarrow>
          (case db' of
             None \<Rightarrow> (Inl (HTTPException 400 (Str not_subscriptable)), db')
           | Some coll \<Rightarrow>
               (case ObjectId inserted_id of
                  Inl e \<Rightarrow> (Inl (HTTPException 400 (Str e)), db')
                | Inr oid \<Rightarrow>
                    (case find_one oid coll of
                       None \<Rightarrow> (Inl (HTTPException 400 (Str none_not_iterable)), db')
                     | Some doc \<Rightarrow> (Inr (Response 201 (to_public str_of doc)), db')))))"

text \<open>The route \<open>POST /api/applications\<close>: the body is validated, then handled.\<close>

definition post_application ::
  "readers \<Rightarrow> (val \<Rightarrow> string) \<Rightarrow> (db \<Rightarrow> string \<Rightarrow> JobApplication \<Rightarrow> (exn + string) \<times> db)
     \<Rightarrow> db \<Rightarrow> body \<Rightarrow> (exn + document response) \<times> db" where
  "post_application R str_of create_doc db b =
     (case CreateJobApplication R b of
        Inl e \<Rightarrow> (Inl e, db)
      | Inr payload \<Rightarrow> create_application str_of create_doc db payload)"


subsection \<open>Notions used to state the properties\<close>

text \<open>
  A body sends a field when it gives it a value other than \<open>null\<close>; \<open>strip_nulls\<close>
  removes the fields given as \<open>null\<close>, so that they are absent.
\<close>

fun is_set :: "'a option \<Rightarrow> bool" where
  "is_set None = False"
| "is_set (Some x) = True"

definition sent :: "body \<Rightarrow> string \<Rightarrow> bool" where
  "sent b k = (case map_of b k of None \<Rightarrow> False | Some JNull \<Rightarrow> False | Some _ \<Rightarrow> True)"

definition strip_nulls :: "body \<Rightarrow> body" where
  "strip_nulls b = filter (\<lambda>(k, j). j \<noteq> JNull) b"

text \<open>The value that a JSON value stands for in a field of the update schema.\<close>

definition sent_value :: "readers \<Rightarrow> string \<Rightarrow> json \<Rightarrow> val option" where
  "sent_value R k j =
     (if k = ''salary_min'' \<or> k = ''salary_max'' then map_option VFloat (float_of R j)
      else if k = ''tags'' then (case str_list j of Inl e \<Rightarrow> None | Inr xs \<Rightarrow> Some (VList xs))
      else map_option VStr (json_str j))"

text \<open>The value that a body gives to a field of the update schema, if it sends one.\<close>

definition body_value :: "readers \<Rightarrow> body \<Rightarrow> string \<Rightarrow> val option" where
  "body_value R b k =
     (case map_of b k of None \<Rightarrow> None | Some JNull \<Rightarrow> None | Some j \<Rightarrow> sent_value R k j)"


subsection \<open>Example data\<close>

definition example_readers :: readers where
  "example_readers =
     \<lparr> float_of = (\<lambda>j. case j of JNum r \<Rightarrow> Some r | _ \<Rightarrow> None), date_of = (\<lambda>j. None) \<rparr>"

definition example_str :: "val \<Rightarrow> string" where
  "example_str v = (case v of VObjectId oid \<Rightarrow> oid | VStr s \<Rightarrow> s | _ \<Rightarrow> [])"

definition example_now :: datetime where
  "example_now =
     \<lparr> year = 2024, month = 3, day = 7, hour = 9, minute = 5, second = 0,
       microsecond = 123456 \<rparr>"

definition example_id :: string where
  "example_id = ''0123456789abcdef01234567''"

definition example_update :: UpdateJobApplication where
  "example_update =
     \<lparr> u_company = None, u_position = None, u_location = None, u_job_link = None,
       u_source = None, u_status = Some ''interviewing'', u_applied_date = None,
       u_follow_up_date = None, u_salary_min = None, u_salary_max = None,
       u_contact_name = None, u_contact_email = None, u_resume_version = None,
       u_priority = None, u_tags = None, u_notes = None, model_fields_set = [''status''] \<rparr>"

definition example_stamped :: document where
  "example_stamped =
     [(''_id'', VObjectId ''0123456789abcdef01234567''), (''company'', VStr ''Acme Corp''),
      (''updated_at'', VDatetime example_now)]"


definition example_body_null :: body where
  "example_body_null = [(''status'', JStr ''interviewing''), (''notes'', JNull)]"

definition example_body_absent :: body where
  "example_body_absent = [(''status'', JStr ''interviewing'')]"

definition example_doc :: document where
  "example_doc =
     [(''_id'', VObjectId ''0123456789abcdef01234567''), (''company'', VStr ''Acme Corp''),
      (''position'', VStr ''Engineer''), (''status'', VStr ''applied''),
      (''tags'', VList [''Remote'']), (''notes'', VStr ''call back'')]"



text \<open>The instance that the body \<open>{"company": "Acme", "position": "Engineer"}\<close> validates to,
  the document stored for it under \<open>example_id\<close>, and its public form.\<close>

definition example_create_body :: body where
  "example_create_body = [(''company'', JStr ''Acme''), (''position'', JStr ''Engineer'')]"




section \<open>Deleting\<close>

lemma delete_one_none: "filter (has_id oid) coll = [] \<Longrightarrow> delete_one oid coll = (0, coll)"
  by (induction coll) (auto split: if_splits)

lemma delete_one_some:
  "filter (has_id oid) coll \<noteq> [] \<Longrightarrow>
   \<exists>coll'. delete_one oid coll = (1, coll') \<and>
     filter (has_id oid) coll' = tl (filter (has_id oid) coll) \<and>
     filter (\<lambda>d. \<not> has_id oid d) coll' = filter (\<lambda>d. \<not> has_id oid d) coll"
  by (induction coll) (auto split: if_splits prod.splits)

lemma example_oid: "ObjectId example_id = Inr example_id"
  by (simp add: ObjectId_def example_id_def is_hex_def is_space_def lower_char_def)

text \<open>
  C8, as stated, fails: for an identifier that \<open>ObjectId\<close> does not accept no stored
  document matches, and the handler answers 400 (the \<open>InvalidId\<close> raised by
  \<open>ObjectId(app_id)\<close> is caught by \<open>except Exception\<close>), not 404.
\<close>

theorem delete_malformed_counterexample:
  "filter (has_id ''not-an-id'') [] = [] \<and>
   delete_application (Some []) ''not-an-id'' =
     (Inl (HTTPException 400 (Str (InvalidId ''not-an-id''))), Some []) \<and>
   delete_application (Some []) ''not-an-id'' \<noteq> (Inl not_found, Some [])"
  by (simp add: delete_application_def ObjectId_def not_found_def)

text \<open>
  C8, amended. Without a configured store deleting fails with 500. With a configured
  store: an identifier that \<open>ObjectId\<close> refuses (a string that is not of 24 characters,
  or that \<open>bytes.fromhex\<close> refuses) fails with 400 and the detail \<open>str(InvalidId)\<close>, and
  the collection is as it was; for an identifier that \<open>ObjectId\<close> accepts, deleting fails
  with NotFound (404) when no stored document has the identifier and leaves the
  collection as it was; when exactly one document has it, deleting succeeds with 204 and
  no body, removes that document and no other, and deleting the same identifier again
  fails with NotFound.
\<close>

theorem delete_application_outcomes:
  "delete_application None app_id = (Inl (HTTPException 500 (Detail ''Database not configured'')), None) \<and>
   (length app_id \<noteq> 24 \<or> fromhex app_id = None \<longrightarrow>
      delete_application (Some coll) app_id =
        (Inl (HTTPException 400 (Str (InvalidId app_id))), Some coll)) \<and>
   (length app_id = 24 \<and> fromhex app_id = Some oid \<longrightarrow>
      (filter (has_id oid) coll = [] \<longrightarrow>
         delete_application (Some coll) app_id =
           (Inl (HTTPException 404 (Detail ''Application not found'')), Some coll)) \<and>
      (length (filter (has_id oid) coll) = 1 \<longrightarrow>
         (\<exists>coll'. delete_application (Some coll) app_id = (Inr (Response 204 None), Some coll') \<and>
            filter (has_id oid) coll' = [] \<and>
            filter (\<lambda>d. \<not> has_id oid d) coll' = filter (\<lambda>d. \<not> has_id oid d) coll \<and>
            delete_application (Some coll') app_id =
              (Inl (HTTPException 404 (Detail ''Application not found'')), Some coll'))))"
proof (intro conjI impI)
  show "delete_application None app_id = (Inl (HTTPException 500 (Detail ''Database not configured'')), None)"
    by (simp add: delete_application_def not_configured_def)
next
  assume "length app_id \<noteq> 24 \<or> fromhex app_id = None"
  then have "ObjectId app_id = Inl (InvalidId app_id)"
    by (auto simp: ObjectId_def)
  then show "delete_application (Some coll) app_id =
        (Inl (HTTPException 400 (Str (InvalidId app_id))), Some coll)"
    by (simp add: delete_application_def)
next
  assume a: "length app_id = 24 \<and> fromhex app_id = Some oid"
    and none: "filter (has_id oid) coll = []"
  from a have oid: "ObjectId app_id = Inr oid" by (simp add: ObjectId_def)
  show "delete_application (Some coll) app_id =
           (Inl (HTTPException 404 (Detail ''Application not found'')), Some coll)"
    by (simp add: delete_application_def oid delete_one_none [OF none] not_found_def)
next
  assume a: "length app_id = 24 \<and> fromhex app_id = Some oid"
    and one: "length (filter (has_id oid) coll) = 1"
  from a have oid: "ObjectId app_id = Inr oid" by (simp add: ObjectId_def)
  from one have ne: "filter (has_id oid) coll \<noteq> []" by auto
  from delete_one_some [OF ne] obtain coll' where
    d: "delete_one oid coll = (1, coll')" and
    f: "filter (has_id oid) coll' = tl (filter (has_id oid) coll)" and
    g: "filter (\<lambda>d. \<not> has_id oid d) coll' = filter (\<lambda>d. \<not> has_id oid d) coll"
    by (elim exE conjE)
  from one f have none': "filter (has_id oid) coll' = []"
    by (cases "filter (has_id oid) coll") auto
  have 1: "delete_application (Some coll) app_id = (Inr (Response 204 None), Some coll')"
    by (simp add: delete_application_def oid d)
  have 2: "delete_application (Some coll') app_id =
      (Inl (HTTPException 404 (Detail ''Application not found'')), Some coll')"
    by (simp add: delete_application_def oid delete_one_none [OF none'] not_found_def)
  show "\<exists>coll'. delete_application (Some coll) app_id = (Inr (Response 204 None), Some coll') \<and>
            filter (has_id oid) coll' = [] \<and>
            filter (\<lambda>d. \<not> has_id oid d) coll' = filter (\<lambda>d. \<not> has_id oid d) coll \<and>
            delete_application (Some coll') app_id =
              (Inl (HTTPException 404 (Detail ''Application not found'')), Some coll')"
    using 1 none' g 2 by (intro exI conjI)
qed

theorem delete_application_outcomes_witness:
  "length ''0123456789abcdef012345  '' = 24 \<and>
   fromhex ''0123456789abcdef012345  '' = Some ''0123456789abcdef012345'' \<and>
   filter (has_id ''0123456789abcdef012345'') [example_doc] = [] \<and>
   delete_application (Some [example_doc]) ''0123456789abcdef012345  '' =
     (Inl (HTTPException 404 (Detail ''Application not found'')), Some [example_doc]) \<and>
   length example_id = 24 \<and> fromhex example_id = Some example_id \<and>
   length (filter (has_id example_id) [example_doc]) = 1 \<and>
   (\<exists>coll'. delete_application (Some [example_doc]) example_id = (Inr (Response 204 None), Some coll') \<and>
      delete_application (Some coll') example_id =
        (Inl (HTTPException 404 (Detail ''Application not found'')), Some coll'))"
proof -
  have a: "length ''0123456789abcdef012345  '' = 24 \<and>
      fromhex ''0123456789abcdef012345  '' = Some ''0123456789abcdef012345''"
    by (simp add: is_hex_def is_space_def lower_char_def)
  have b: "filter (has_id ''0123456789abcdef012345'') [example_doc] = []"
    by (simp add: has_id_def example_doc_def)
  have c: "length example_id = 24 \<and> fromhex example_id = Some example_id"
    by (simp add: example_id_def is_hex_def is_space_def lower_char_def)
  have d: "length (filter (has_id example_id) [example_doc]) = 1"
    by (simp add: has_id_def example_doc_def example_id_def)
  note t = delete_application_outcomes [THEN conjunct2, THEN conjunct2]
  from t [THEN mp, OF a, THEN conjunct1, THEN mp, OF b]
  have 1: "delete_application (Some [example_doc]) ''0123456789abcdef012345  '' =
     (Inl (HTTPException 404 (Detail ''Application not found'')), Some [example_doc])" .
  from t [THEN mp, OF c, THEN conjunct2, THEN mp, OF d]
  obtain coll' where
    2: "delete_application (Some [example_doc]) example_id = (Inr (Response 204 None), Some coll')" and
    3: "delete_application (Some coll') example_id =
        (Inl (HTTPException 404 (Detail ''Application not found'')), Some coll')"
    by (elim exE conjE)
  have e: "\<exists>coll'. delete_application (Some [example_doc]) example_id = (Inr (Response 204 None), Some coll') \<and>
      delete_application (Some coll') example_id =
        (Inl (HTTPException 404 (Detail ''Application not found'')), Some coll')"
    using 2 3 by (intro exI conjI)
  from a b 1 c d e show ?thesis by (simp only: simp_thms)
qed

section \<open>Facts about the public form and the store operations\<close>

lemma map_of_iso: "map_of (map (\<lambda>(k, v). (k, iso_value v)) d) k = map_option iso_value (map_of d k)"
  by (induction d) auto

lemma map_of_to_public:
  "map_of (to_public str_of d) k =
     (case map_of d ''_id'' of
        None \<Rightarrow> if k = ''id'' then Some VNone else map_option iso_value (map_of d k)
      | Some v \<Rightarrow>
          if truthy v
          then (if k = ''id'' then Some (VStr (str_of v))
                else if k = ''_id'' then None else map_option iso_value (map_of d k))
          else (if k = ''id'' then Some VNone else map_option iso_value (map_of d k)))"
  by (auto simp: to_public_def Let_def map_of_iso update_conv' delete_conv' split: option.splits)


lemma map_of_set_fields:
  "map_of (set_fields upd d) k =
     (case map_of (rev upd) k of None \<Rightarrow> map_of d k | Some v \<Rightarrow> Some v)"
  unfolding set_fields_def
proof (induction upd arbitrary: d)
  case Nil
  then show ?case by simp
next
  case (Cons a upd)
  obtain k' v' where a: "a = (k', v')" by (cases a)
  show ?case
    by (simp add: Cons a update_conv' map_add_def split: option.splits)
qed

lemma store_update_none: "filter (has_id oid) coll = [] \<Longrightarrow> store_update oid upd coll = (0, coll)"
  by (induction coll) (auto split: if_splits)

lemma store_update_count: "store_update oid upd coll = (n, coll') \<Longrightarrow> n = 0 \<or> n = 1"
  by (induction coll arbitrary: n coll') (auto split: if_splits prod.splits)

lemma store_update_unmatched: "store_update oid upd coll = (0, coll') \<Longrightarrow> coll' = coll"
  by (induction coll arbitrary: coll') (auto split: if_splits prod.splits)

lemma store_update_matched:
  "store_update oid upd coll = (n, coll') \<Longrightarrow> n \<noteq> 0 \<Longrightarrow> map_of upd ''_id'' = None \<Longrightarrow>
   \<exists>pre. find_one oid coll = Some pre \<and>
     find_one oid coll' = Some (set_fields upd pre) \<and>
     filter (\<lambda>d. \<not> has_id oid d) coll' = filter (\<lambda>d. \<not> has_id oid d) coll \<and>
     length coll' = length coll"
proof (induction coll arbitrary: n coll')
  case Nil
  then show ?case by simp
next
  case (Cons d ds)
  show ?case
  proof (cases "has_id oid d")
    case True
    have "map_of (rev upd) ''_id'' = None"
      using Cons.prems(3) by (simp add: map_of_eq_None_iff)
    then have "has_id oid (set_fields upd d)"
      using True by (simp add: has_id_def map_of_set_fields)
    with True Cons.prems show ?thesis
      by (auto simp: find_one_def)
  next
    case False
    with Cons.prems obtain ds' where u: "store_update oid upd ds = (n, ds')" and c: "coll' = d # ds'"
      by (auto split: prod.splits)
    from Cons.IH [OF u Cons.prems(2) Cons.prems(3)] False c show ?thesis
      by (auto simp: find_one_def)
  qed
qed

section \<open>Facts about the update payload\<close>

lemma update_items_keys: "map fst (update_items p) = update_fields"
  by (simp add: update_items_def update_fields_def)

lemma map_of_exclude_none:
  "distinct (map fst items) \<Longrightarrow>
   map_of (exclude_none items) k = (case map_of items k of Some (Some v) \<Rightarrow> Some v | _ \<Rightarrow> None)"
proof (induction items)
  case Nil
  then show ?case by (simp add: exclude_none_def List.map_filter_simps)
next
  case (Cons a items)
  obtain k' v' where a: "a = (k', v')" by (cases a)
  from Cons.prems a have nk: "map_of items k' = None" and d: "distinct (map fst items)"
    by (auto simp: map_of_eq_None_iff)
  from Cons.IH [OF d] have IH: "map_of (List.map_filter (\<lambda>(k, v). map_option (Pair k) v) items) k =
      (case map_of items k of Some (Some v) \<Rightarrow> Some v | _ \<Rightarrow> None)"
    by (simp add: exclude_none_def)
  show ?case
    using IH nk by (cases v') (auto simp: exclude_none_def List.map_filter_simps a split: option.splits)
qed

lemma distinct_update_fields: "distinct update_fields"
  by (simp add: update_fields_def)

lemma map_of_dump:
  "map_of (model_dump_exclude_none p) k =
     (case map_of (update_items p) k of Some (Some v) \<Rightarrow> Some v | _ \<Rightarrow> None)"
  by (simp add: model_dump_exclude_none_def map_of_exclude_none update_items_keys distinct_update_fields)

lemma dump_keys: "map_of (model_dump_exclude_none p) k = Some v \<Longrightarrow> k \<in> set update_fields"
proof -
  assume "map_of (model_dump_exclude_none p) k = Some v"
  then have "map_of (update_items p) k \<noteq> None"
    by (auto simp: map_of_dump split: option.splits)
  then have "k \<in> set (map fst (update_items p))"
    by (simp add: map_of_eq_None_iff)
  then show ?thesis by (simp only: update_items_keys)
qed

lemma dump_no_id: "map_of (model_dump_exclude_none p) ''_id'' = None"
proof (cases "map_of (model_dump_exclude_none p) ''_id''")
  case None then show ?thesis .
next
  case (Some v)
  from dump_keys [OF this] show ?thesis by (simp add: update_fields_def)
qed

lemma dump_no_updated_at: "map_of (model_dump_exclude_none p) ''updated_at'' = None"
proof (cases "map_of (model_dump_exclude_none p) ''updated_at''")
  case None then show ?thesis .
next
  case (Some v)
  from dump_keys [OF this] show ?thesis by (simp add: update_fields_def)
qed

lemma map_of_rev_distinct: "distinct (map fst xs) \<Longrightarrow> map_of (rev xs) k = map_of xs k"
proof (induction xs)
  case Nil
  then show ?case by simp
next
  case (Cons a xs)
  obtain k' v' where a: "a = (k', v')" by (cases a)
  from Cons.prems a have "map_of xs k' = None" and "distinct (map fst xs)"
    by (auto simp: map_of_eq_None_iff)
  with Cons.IH a show ?case
    by (auto simp: map_add_def split: option.splits)
qed

lemma exclude_none_keys:
  "map fst (exclude_none items) = map fst (filter (\<lambda>(k, v). v \<noteq> None) items)"
  by (induction items) (auto simp: exclude_none_def List.map_filter_simps split: option.splits)

lemma distinct_dump: "distinct (map fst (model_dump_exclude_none p))"
proof -
  have "distinct (map fst (update_items p))"
    by (simp only: update_items_keys distinct_update_fields)
  then have "distinct (map fst (filter (\<lambda>(k, v). v \<noteq> None) (update_items p)))"
    by (rule distinct_map_filter)
  then show ?thesis
    by (simp only: model_dump_exclude_none_def exclude_none_keys)
qed

lemma exclude_none_mem: "(k, v) \<in> set (exclude_none items) \<longleftrightarrow> (k, Some v) \<in> set items"
  by (induction items) (auto simp: exclude_none_def List.map_filter_simps split: option.splits)

lemma some_map_option: "Some v = map_option f x \<Longrightarrow> \<exists>y. v = f y"
  by (cases x) auto

lemma dump_plain:
  "(k, v) \<in> set (model_dump_exclude_none p) \<Longrightarrow>
   encodable v \<and> stored_value v = v \<and> iso_value v = v"
  by (auto simp: model_dump_exclude_none_def exclude_none_mem update_items_def
      dest!: some_map_option)

lemma update_mem:
  "(k', v') \<in> set (AList.update k v xs) \<Longrightarrow> (k', v') = (k, v) \<or> (k', v') \<in> set xs"
  by (induction xs) (auto split: if_splits)

lemma map_update_values:
  "map (\<lambda>(k, v). (k, f v)) (AList.update k x xs) = AList.update k (f x) (map (\<lambda>(k, v). (k, f v)) xs)"
  by (induction xs) auto

lemma encode_update_dict:
  "bson_encode (AList.update ''updated_at'' (VDatetime now) (model_dump_exclude_none p)) =
     Inr (AList.update ''updated_at'' (VDatetime (millis now)) (model_dump_exclude_none p))"
proof -
  let ?d = "model_dump_exclude_none p"
  have m: "map (\<lambda>(k, v). (k, stored_value v)) ?d = ?d"
    using dump_plain [of _ _ p] by (intro map_idI) auto
  have "encodable v" if "(k, v) \<in> set (AList.update ''updated_at'' (VDatetime now) ?d)" for k v
    using update_mem [OF that] dump_plain [of k v p] by auto
  then have e: "list_all (\<lambda>(k, v). encodable v) (AList.update ''updated_at'' (VDatetime now) ?d)"
    by (auto simp: list_all_iff)
  show ?thesis
    by (simp add: bson_encode_def e map_update_values m)
qed

lemma update_one_dict:
  "update_one oid (AList.update ''updated_at'' (VDatetime now) (model_dump_exclude_none p)) coll =
     Inr (store_update oid
            (AList.update ''updated_at'' (VDatetime (millis now)) (model_dump_exclude_none p)) coll)"
  by (simp add: update_one_def encode_update_dict)

lemma update_application_success:
  assumes "update_application s now (Some coll) app_id p = (Inr r, db')"
  shows "\<exists>oid pre coll'. ObjectId app_id = Inr oid \<and> find_one oid coll = Some pre \<and>
     db' = Some coll' \<and> model_dump_exclude_none p \<noteq> [] \<and>
     find_one oid coll' = Some (set_fields (AList.update ''updated_at'' (VDatetime (millis now)) (model_dump_exclude_none p)) pre) \<and>
     r = Response 200 (to_public s (set_fields (AList.update ''updated_at'' (VDatetime (millis now)) (model_dump_exclude_none p)) pre)) \<and>
     filter (\<lambda>d. \<not> has_id oid d) coll' = filter (\<lambda>d. \<not> has_id oid d) coll"
proof -
  let ?upd = "AList.update ''updated_at'' (VDatetime (millis now)) (model_dump_exclude_none p)"
  have noid: "map_of ?upd ''_id'' = None"
    by (simp add: update_conv' dump_no_id)
  from assms have ne: "model_dump_exclude_none p \<noteq> []"
    by (auto simp: update_application_def Let_def split: if_splits)
  from assms ne obtain oid where oid: "ObjectId app_id = Inr oid"
    by (cases "ObjectId app_id") (auto simp: update_application_def Let_def)
  obtain n coll' where u: "store_update oid ?upd coll = (n, coll')"
    by (cases "store_update oid ?upd coll")
  from assms ne oid u have n: "n \<noteq> 0"
    by (auto simp: update_application_def Let_def update_one_dict split: if_splits)
  from store_update_matched [OF u n noid] obtain pre where
    pre: "find_one oid coll = Some pre" and
    post: "find_one oid coll' = Some (set_fields ?upd pre)" and
    others: "filter (\<lambda>d. \<not> has_id oid d) coll' = filter (\<lambda>d. \<not> has_id oid d) coll"
    by (elim exE conjE)
  from assms ne oid u n post have "r = Response 200 (to_public s (set_fields ?upd pre))" and "db' = Some coll'"
    by (auto simp: update_application_def Let_def update_one_dict)
  with oid pre post others ne show ?thesis
    by (intro exI conjI)
qed

lemma map_of_post:
  "map_of (set_fields (AList.update ''updated_at'' (VDatetime t) (model_dump_exclude_none p)) pre) k =
     (if k = ''updated_at'' then Some (VDatetime t)
      else case map_of (model_dump_exclude_none p) k of Some v \<Rightarrow> Some v | None \<Rightarrow> map_of pre k)"
proof -
  let ?upd = "AList.update ''updated_at'' (VDatetime t) (model_dump_exclude_none p)"
  have "distinct (map fst ?upd)"
    by (simp add: distinct_update distinct_dump)
  then have "map_of (rev ?upd) k = map_of ?upd k"
    by (rule map_of_rev_distinct)
  then show ?thesis
    by (simp add: map_of_set_fields update_conv')
qed

lemma map_of_strip_nulls:
  "distinct (map fst b) \<Longrightarrow>
   map_of (strip_nulls b) k = (case map_of b k of Some JNull \<Rightarrow> None | r \<Rightarrow> r)"
proof (induction b)
  case Nil
  then show ?case by (simp add: strip_nulls_def)
next
  case (Cons a b)
  obtain k' j' where a: "a = (k', j')" by (cases a)
  from Cons.prems a have nk: "map_of b k' = None" and d: "distinct (map fst b)"
    by (auto simp: map_of_eq_None_iff)
  from Cons.IH [OF d] nk a show ?case
    by (auto simp: strip_nulls_def split: option.splits json.splits)
qed

lemma optional_str_strip:
  "distinct (map fst b) \<Longrightarrow> optional_str None (strip_nulls b) k = optional_str None b k"
  by (auto simp: optional_str_def map_of_strip_nulls split: option.splits json.splits)

lemma optional_float_strip:
  "distinct (map fst b) \<Longrightarrow> optional_float R (strip_nulls b) k = optional_float R b k"
  by (auto simp: optional_float_def map_of_strip_nulls split: option.splits json.splits)

lemma optional_list_strip:
  "distinct (map fst b) \<Longrightarrow> optional_list (strip_nulls b) k = optional_list b k"
  by (auto simp: optional_list_def map_of_strip_nulls split: option.splits json.splits)

lemma update_errors_strip:
  "distinct (map fst b) \<Longrightarrow> update_errors R (strip_nulls b) = update_errors R b"
  by (simp only: update_errors_def optional_str_strip optional_float_strip optional_list_strip)

lemma update_items_fields_set: "update_items (p\<lparr>model_fields_set := fs\<rparr>) = update_items p"
  by (simp add: update_items_def)

lemma update_application_fields_set:
  "update_application s now db app_id (p\<lparr>model_fields_set := fs\<rparr>) = update_application s now db app_id p"
  by (simp only: update_application_def model_dump_exclude_none_def update_items_fields_set)

lemma parse_update_strip:
  assumes "distinct (map fst b)" and "parse_update R b = Inr p"
  shows "parse_update R (strip_nulls b) =
           Inr (p\<lparr>model_fields_set := filter (\<lambda>k. map_of (strip_nulls b) k \<noteq> None) update_fields\<rparr>)"
proof -
  from assms(2) have e: "update_errors R b = []"
    by (auto simp: parse_update_def split: if_splits)
  then have e': "update_errors R (strip_nulls b) = []"
    by (simp only: update_errors_strip [OF assms(1)])
  from assms(2) e have p: "p = \<lparr>
        u_company = projr (optional_str None b ''company''),
        u_position = projr (optional_str None b ''position''),
        u_location = projr (optional_str None b ''location''),
        u_job_link = projr (optional_str None b ''job_link''),
        u_source = projr (optional_str None b ''source''),
        u_status = projr (optional_str None b ''status''),
        u_applied_date = projr (optional_str None b ''applied_date''),
        u_follow_up_date = projr (optional_str None b ''follow_up_date''),
        u_salary_min = projr (optional_float R b ''salary_min''),
        u_salary_max = projr (optional_float R b ''salary_max''),
        u_contact_name = projr (optional_str None b ''contact_name''),
        u_contact_email = projr (optional_str None b ''contact_email''),
        u_resume_version = projr (optional_str None b ''resume_version''),
        u_priority = projr (optional_str None b ''priority''),
        u_tags = projr (optional_list b ''tags''),
        u_notes = projr (optional_str None b ''notes''),
        model_fields_set = filter (\<lambda>k. map_of b k \<noteq> None) update_fields \<rparr>"
    by (simp add: parse_update_def)
  show ?thesis
    unfolding parse_update_def [of R "strip_nulls b"] e'
    by (simp only: optional_str_strip [OF assms(1)] optional_float_strip [OF assms(1)]
          optional_list_strip [OF assms(1)]) (simp add: p)
qed

lemma parse_update_strip_error:
  assumes "distinct (map fst b)" and "parse_update R b = Inl e"
  shows "parse_update R (strip_nulls b) = Inl e"
proof -
  from assms(2) have e: "update_errors R b \<noteq> []" "e = RequestValidationError (update_errors R b)"
    by (auto simp: parse_update_def split: if_splits)
  then show ?thesis
    by (simp add: parse_update_def update_errors_strip [OF assms(1)])
qed

lemma patch_null_absent:
  assumes "distinct (map fst b)"
  shows "patch_application R s now db app_id (strip_nulls b) = patch_application R s now db app_id b"
proof (cases "parse_update R b")
  case (Inl e)
  with parse_update_strip_error [OF assms Inl] show ?thesis
    by (simp add: patch_application_def)
next
  case (Inr p)
  with parse_update_strip [OF assms Inr] show ?thesis
    by (simp add: patch_application_def update_application_fields_set)
qed


lemma optional_str_sent:
  "err k' (optional_str None b k) = [] \<Longrightarrow>
   is_set (map_option f (projr (optional_str None b k))) = sent b k"
  by (auto simp: optional_str_def err_def sent_def split: option.splits json.splits)

lemma optional_float_sent:
  "err k' (optional_float R b k) = [] \<Longrightarrow>
   is_set (map_option f (projr (optional_float R b k))) = sent b k"
  by (auto simp: optional_float_def err_def sent_def split: option.splits json.splits)

lemma optional_list_sent:
  "err k' (optional_list b k) = [] \<Longrightarrow>
   is_set (map_option f (projr (optional_list b k))) = sent b k"
  by (auto simp: optional_list_def err_def sent_def split: option.splits json.splits sum.splits)

lemma parsed_items:
  assumes "parse_update R b = Inr p"
  shows "list_all (\<lambda>(k, v). is_set v = sent b k) (update_items p)"
proof -
  from assms have e: "update_errors R b = []"
    by (auto simp: parse_update_def split: if_splits)
  from assms e have p: "p = \<lparr>
        u_company = projr (optional_str None b ''company''),
        u_position = projr (optional_str None b ''position''),
        u_location = projr (optional_str None b ''location''),
        u_job_link = projr (optional_str None b ''job_link''),
        u_source = projr (optional_str None b ''source''),
        u_status = projr (optional_str None b ''status''),
        u_applied_date = projr (optional_str None b ''applied_date''),
        u_follow_up_date = projr (optional_str None b ''follow_up_date''),
        u_salary_min = projr (optional_float R b ''salary_min''),
        u_salary_max = projr (optional_float R b ''salary_max''),
        u_contact_name = projr (optional_str None b ''contact_name''),
        u_contact_email = projr (optional_str None b ''contact_email''),
        u_resume_version = projr (optional_str None b ''resume_version''),
        u_priority = projr (optional_str None b ''priority''),
        u_tags = projr (optional_list b ''tags''),
        u_notes = projr (optional_str None b ''notes''),
        model_fields_set = filter (\<lambda>k. map_of b k \<noteq> None) update_fields \<rparr>"
    by (simp add: parse_update_def)
  from e have errs:
    "err ''company'' (optional_str None b ''company'') = []"
    "err ''position'' (optional_str None b ''position'') = []"
    "err ''location'' (optional_str None b ''location'') = []"
    "err ''job_link'' (optional_str None b ''job_link'') = []"
    "err ''source'' (optional_str None b ''source'') = []"
    "err ''status'' (optional_str None b ''status'') = []"
    "err ''applied_date'' (optional_str None b ''applied_date'') = []"
    "err ''follow_up_date'' (optional_str None b ''follow_up_date'') = []"
    "err ''salary_min'' (optional_float R b ''salary_min'') = []"
    "err ''salary_max'' (optional_float R b ''salary_max'') = []"
    "err ''contact_name'' (optional_str None b ''contact_name'') = []"
    "err ''contact_email'' (optional_str None b ''contact_email'') = []"
    "err ''resume_version'' (optional_str None b ''resume_version'') = []"
    "err ''priority'' (optional_str None b ''priority'') = []"
    "err ''tags'' (optional_list b ''tags'') = []"
    "err ''notes'' (optional_str None b ''notes'') = []"
    by (simp_all add: update_errors_def)
  show ?thesis
    unfolding p update_items_def
    by (simp add: optional_str_sent [OF errs(1)] optional_str_sent [OF errs(2)]
        optional_str_sent [OF errs(3)] optional_str_sent [OF errs(4)] optional_str_sent [OF errs(5)]
        optional_str_sent [OF errs(6)] optional_str_sent [OF errs(7)] optional_str_sent [OF errs(8)]
        optional_float_sent [OF errs(9)] optional_float_sent [OF errs(10)]
        optional_str_sent [OF errs(11)] optional_str_sent [OF errs(12)] optional_str_sent [OF errs(13)]
        optional_str_sent [OF errs(14)] optional_list_sent [OF errs(15)] optional_str_sent [OF errs(16)])
qed

lemma dump_key_iff:
  assumes "parse_update R b = Inr p"
  shows "(map_of (model_dump_exclude_none p) k \<noteq> None) = (k \<in> set update_fields \<and> sent b k)"
proof (cases "map_of (update_items p) k")
  case None
  then have "k \<notin> set (map fst (update_items p))"
    by (simp add: map_of_eq_None_iff)
  then have "k \<notin> set update_fields"
    using update_items_keys [of p] by simp
  with None show ?thesis by (simp add: map_of_dump)
next
  case (Some v)
  then have m: "(k, v) \<in> set (update_items p)"
    by (rule map_of_SomeD)
  then have "k \<in> set (map fst (update_items p))"
    by force
  then have k: "k \<in> set update_fields"
    using update_items_keys [of p] by simp
  from parsed_items [OF assms] m have "is_set v = sent b k"
    by (auto simp: list_all_iff)
  with Some k show ?thesis
    by (cases v) (auto simp: map_of_dump)
qed

lemma optional_str_value:
  "k \<noteq> ''salary_min'' \<Longrightarrow> k \<noteq> ''salary_max'' \<Longrightarrow> k \<noteq> ''tags'' \<Longrightarrow>
   err k' (optional_str None b k) = [] \<Longrightarrow>
   map_option VStr (projr (optional_str None b k)) = body_value R b k"
  by (auto simp: optional_str_def err_def body_value_def sent_value_def
      split: option.splits json.splits)

lemma optional_float_value:
  "k = ''salary_min'' \<or> k = ''salary_max'' \<Longrightarrow>
   err k' (optional_float R b k) = [] \<Longrightarrow>
   map_option VFloat (projr (optional_float R b k)) = body_value R b k"
  by (auto simp: optional_float_def err_def body_value_def sent_value_def
      split: option.splits json.splits)

lemma optional_list_value:
  "err k' (optional_list b ''tags'') = [] \<Longrightarrow>
   map_option VList (projr (optional_list b ''tags'')) = body_value R b ''tags''"
  by (auto simp: optional_list_def err_def body_value_def sent_value_def
      split: option.splits json.splits sum.splits)

lemma parsed_items_values:
  assumes "parse_update R b = Inr p"
  shows "update_items p = map (\<lambda>k. (k, body_value R b k)) update_fields"
proof -
  from assms have e: "update_errors R b = []"
    by (auto simp: parse_update_def split: if_splits)
  from assms e have p: "p = \<lparr>
        u_company = projr (optional_str None b ''company''),
        u_position = projr (optional_str None b ''position''),
        u_location = projr (optional_str None b ''location''),
        u_job_link = projr (optional_str None b ''job_link''),
        u_source = projr (optional_str None b ''source''),
        u_status = projr (optional_str None b ''status''),
        u_applied_date = projr (optional_str None b ''applied_date''),
        u_follow_up_date = projr (optional_str None b ''follow_up_date''),
        u_salary_min = projr (optional_float R b ''salary_min''),
        u_salary_max = projr (optional_float R b ''salary_max''),
        u_contact_name = projr (optional_str None b ''contact_name''),
        u_contact_email = projr (optional_str None b ''contact_email''),
        u_resume_version = projr (optional_str None b ''resume_version''),
        u_priority = projr (optional_str None b ''priority''),
        u_tags = projr (optional_list b ''tags''),
        u_notes = projr (optional_str None b ''notes''),
        model_fields_set = filter (\<lambda>k. map_of b k \<noteq> None) update_fields \<rparr>"
    by (simp add: parse_update_def)
  from e have errs:
    "err ''company'' (optional_str None b ''company'') = []"
    "err ''position'' (optional_str None b ''position'') = []"
    "err ''location'' (optional_str None b ''location'') = []"
    "err ''job_link'' (optional_str None b ''job_link'') = []"
    "err ''source'' (optional_str None b ''source'') = []"
    "err ''status'' (optional_str None b ''status'') = []"
    "err ''applied_date'' (optional_str None b ''applied_date'') = []"
    "err ''follow_up_date'' (optional_str None b ''follow_up_date'') = []"
    "err ''salary_min'' (optional_float R b ''salary_min'') = []"
    "err ''salary_max'' (optional_float R b ''salary_max'') = []"
    "err ''contact_name'' (optional_str None b ''contact_name'') = []"
    "err ''contact_email'' (optional_str None b ''contact_email'') = []"
    "err ''resume_version'' (optional_str None b ''resume_version'') = []"
    "err ''priority'' (optional_str None b ''priority'') = []"
    "err ''tags'' (optional_list b ''tags'') = []"
    "err ''notes'' (optional_str None b ''notes'') = []"
    by (simp_all add: update_errors_def)
  show ?thesis
    unfolding p update_items_def update_fields_def
    by (simp add:
        optional_str_value [OF _ _ _ errs(1)] optional_str_value [OF _ _ _ errs(2)]
        optional_str_value [OF _ _ _ errs(3)] optional_str_value [OF _ _ _ errs(4)] optional_str_value [OF _ _ _ errs(5)]
        optional_str_value [OF _ _ _ errs(6)] optional_str_value [OF _ _ _ errs(7)] optional_str_value [OF _ _ _ errs(8)]
        optional_float_value [OF _ errs(9)] optional_float_value [OF _ errs(10)]
        optional_str_value [OF _ _ _ errs(11)] optional_str_value [OF _ _ _ errs(12)] optional_str_value [OF _ _ _ errs(13)]
        optional_str_value [OF _ _ _ errs(14)] optional_list_value [OF errs(15)] optional_str_value [OF _ _ _ errs(16)])
qed

lemma map_of_keyed: "map_of (map (\<lambda>k. (k, f k)) ks) k = (if k \<in> set ks then Some (f k) else None)"
  by (induction ks) auto

lemma dump_of_body:
  assumes "parse_update R b = Inr p"
  shows "map_of (model_dump_exclude_none p) k =
           (if k \<in> set update_fields then body_value R b k else None)"
  by (simp add: map_of_dump parsed_items_values [OF assms] map_of_keyed split: option.splits)

lemma no_fields_parse:
  assumes "list_all (\<lambda>k. \<not> sent b k) update_fields"
  shows "\<exists>p. parse_update R b = Inr p \<and> model_dump_exclude_none p = []"
proof -
  have n: "map_of b k = None \<or> map_of b k = Some JNull" if "k \<in> set update_fields" for k
  proof -
    from assms that have "\<not> sent b k" by (simp add: list_all_iff)
    then show ?thesis
      by (cases "map_of b k") (auto simp: sent_def split: json.splits)
  qed
  have s: "optional_str None b k = Inr None" if "k \<in> set update_fields" for k
    using n [OF that] by (auto simp: optional_str_def)
  have f: "optional_float R b k = Inr None" if "k \<in> set update_fields" for k
    using n [OF that] by (auto simp: optional_float_def)
  have l: "optional_list b k = Inr None" if "k \<in> set update_fields" for k
    using n [OF that] by (auto simp: optional_list_def)
  have e: "update_errors R b = []"
    by (simp add: update_errors_def s f l update_fields_def err_def)
  then obtain p where p: "parse_update R b = Inr p"
    by (simp add: parse_update_def)
  have "map_of (model_dump_exclude_none p) k = None" for k
    using dump_of_body [OF p, of k] n [of k] by (auto simp: body_value_def)
  then have "map_of (model_dump_exclude_none p) = Map.empty"
    by (intro ext)
  then have "model_dump_exclude_none p = []"
    by (simp only: map_of_eq_empty_iff)
  with p show ?thesis by (intro exI conjI)
qed

section \<open>Updating\<close>

lemma example_dump: "model_dump_exclude_none example_update = [(''status'', VStr ''interviewing'')]"
  by (simp add: model_dump_exclude_none_def update_items_def exclude_none_def example_update_def
      List.map_filter_simps)


lemma example_update_ok:
  "\<exists>r db'. update_application example_str example_now (Some [example_doc]) example_id example_update = (Inr r, db')"
  by (simp add: update_application_def example_dump example_oid update_one_def bson_encode_def)
     (simp add: example_id_def example_doc_def has_id_def find_one_def set_fields_def)

text \<open>
  C2, as stated, fails: with no store configured an update with zero fields set answers
  500, not 400; the check of the store comes first.
\<close>

theorem update_no_fields_counterexample:
  "list_all (\<lambda>k. \<not> sent [] k) update_fields \<and>
   patch_application example_readers example_str example_now None example_id [] =
     (Inl (HTTPException 500 (Detail ''Database not configured'')), None)"
  by (simp add: update_fields_def sent_def patch_application_def parse_update_def update_errors_def
      optional_str_def optional_float_def optional_list_def err_def update_application_def
      not_configured_def)

text \<open>
  C2, amended: for every identifier, accepted by \<open>ObjectId\<close> or not, and every body that
  gives no field of the update schema a value other than \<open>null\<close>: with the store
  configured the route answers 400 (No fields to update) and the collection is as it
  was, the check coming before \<open>ObjectId(app_id)\<close> and before any store operation; with
  no store configured it answers 500. The same holds of the handler for every payload
  whose fields are all \<open>None\<close>.
\<close>

theorem update_no_fields_rejected:
  "(list_all (\<lambda>k. \<not> sent b k) update_fields \<longrightarrow>
      patch_application R s now (Some coll) app_id b =
        (Inl (HTTPException 400 (Detail ''No fields to update'')), Some coll) \<and>
      patch_application R s now None app_id b =
        (Inl (HTTPException 500 (Detail ''Database not configured'')), None)) \<and>
   (list_all (\<lambda>(k, v). v = None) (update_items p) \<longrightarrow>
      update_application s now (Some coll) app_id p =
        (Inl (HTTPException 400 (Detail ''No fields to update'')), Some coll) \<and>
      update_application s now None app_id p =
        (Inl (HTTPException 500 (Detail ''Database not configured'')), None))"
proof (intro conjI impI)
  assume "list_all (\<lambda>k. \<not> sent b k) update_fields"
  from no_fields_parse [OF this, of R] obtain p' where
    p: "parse_update R b = Inr p'" "model_dump_exclude_none p' = []"
    by (elim exE conjE)
  from p show "patch_application R s now (Some coll) app_id b =
        (Inl (HTTPException 400 (Detail ''No fields to update'')), Some coll)"
    by (simp add: patch_application_def update_application_def)
  from p show "patch_application R s now None app_id b =
        (Inl (HTTPException 500 (Detail ''Database not configured'')), None)"
    by (simp add: patch_application_def update_application_def not_configured_def)
next
  assume "list_all (\<lambda>(k, v). v = None) (update_items p)"
  then have "filter (\<lambda>(k, v). v \<noteq> None) (update_items p) = []"
    by (auto simp: list_all_iff filter_empty_conv)
  then have "map fst (model_dump_exclude_none p) = []"
    by (simp add: model_dump_exclude_none_def exclude_none_keys)
  then have e: "model_dump_exclude_none p = []"
    by simp
  then show "update_application s now (Some coll) app_id p =
        (Inl (HTTPException 400 (Detail ''No fields to update'')), Some coll)"
    by (simp add: update_application_def)
  show "update_application s now None app_id p =
        (Inl (HTTPException 500 (Detail ''Database not configured'')), None)"
    by (simp add: update_application_def not_configured_def)
qed

theorem update_no_fields_rejected_witness:
  "list_all (\<lambda>k. \<not> sent [(''notes'', JNull), (''unknown'', JNum 1)] k) update_fields \<and>
   patch_application example_readers example_str example_now (Some [example_doc]) ''not-an-id''
       [(''notes'', JNull), (''unknown'', JNum 1)] =
     (Inl (HTTPException 400 (Detail ''No fields to update'')), Some [example_doc]) \<and>
   patch_application example_readers example_str example_now None ''not-an-id''
       [(''notes'', JNull), (''unknown'', JNum 1)] =
     (Inl (HTTPException 500 (Detail ''Database not configured'')), None)"
proof -
  have h: "list_all (\<lambda>k. \<not> sent [(''notes'', JNull), (''unknown'', JNum 1)] k) update_fields"
    by (simp add: update_fields_def sent_def)
  note t = update_no_fields_rejected [THEN conjunct1, THEN mp, OF h]
  have 1: "patch_application example_readers example_str example_now (Some [example_doc]) ''not-an-id''
       [(''notes'', JNull), (''unknown'', JNum 1)] =
     (Inl (HTTPException 400 (Detail ''No fields to update'')), Some [example_doc])"
    by (rule t [THEN conjunct1])
  have 2: "patch_application example_readers example_str example_now None ''not-an-id''
       [(''notes'', JNull), (''unknown'', JNum 1)] =
     (Inl (HTTPException 500 (Detail ''Database not configured'')), None)"
    by (rule t [THEN conjunct2])
  from h 1 2 show ?thesis by (intro conjI)
qed

text \<open>
  C4: when the update document of a payload is the single pair \<open>(f, v)\<close> and the update
  succeeds, the stored document after the update has \<open>v\<close> under \<open>f\<close> and the clock
  reading, to the millisecond that the store keeps, under \<open>updated_at\<close>, and agrees with
  the document before the update on every other key; so does the returned public form
  with the public form of the document before, and it carries \<open>v\<close> under \<open>f\<close>. The
  other documents of the collection are untouched.
\<close>

theorem update_one_field_frame:
  assumes "model_dump_exclude_none p = [(f, v)]"
    and "update_application s now (Some coll) app_id p = (Inr r, db')"
  shows "\<exists>oid pre post coll'.
     ObjectId app_id = Inr oid \<and> find_one oid coll = Some pre \<and>
     db' = Some coll' \<and> find_one oid coll' = Some post \<and>
     r = Response 200 (to_public s post) \<and>
     map_of post f = Some v \<and>
     map_of post ''updated_at'' =
       Some (VDatetime (now\<lparr>microsecond := microsecond now div 1000 * 1000\<rparr>)) \<and>
     map_of (to_public s post) f = Some v \<and>
     (\<forall>k. k \<noteq> f \<longrightarrow> k \<noteq> ''updated_at'' \<longrightarrow>
        (map_of post k = map_of pre k \<and>
         map_of (to_public s post) k = map_of (to_public s pre) k)) \<and>
     filter (\<lambda>d. \<not> has_id oid d) coll' = filter (\<lambda>d. \<not> has_id oid d) coll"
proof -
  let ?post = "\<lambda>pre. set_fields (AList.update ''updated_at'' (VDatetime (millis now)) (model_dump_exclude_none p)) pre"
  from update_application_success [OF assms(2)] obtain oid pre coll' where
    a: "ObjectId app_id = Inr oid" "find_one oid coll = Some pre" "db' = Some coll'"
       "find_one oid coll' = Some (?post pre)" "r = Response 200 (to_public s (?post pre))"
       "filter (\<lambda>d. \<not> has_id oid d) coll' = filter (\<lambda>d. \<not> has_id oid d) coll"
    by (elim exE conjE)
  have f: "f \<noteq> ''updated_at''"
    using dump_no_updated_at [of p] assms(1) by auto
  have fid: "f \<noteq> ''_id''"
    using dump_no_id [of p] assms(1) by auto
  have "f \<in> set update_fields"
    using dump_keys [of p f v] assms(1) by simp
  then have fid': "f \<noteq> ''id''"
    by (auto simp: update_fields_def)
  have iso: "iso_value v = v"
    using dump_plain [of f v p] assms(1) by simp
  have 1: "map_of (?post pre) f = Some v"
    using f map_of_post [of "millis now" p pre f] by (simp add: assms(1))
  have 2: "map_of (?post pre) ''updated_at'' =
      Some (VDatetime (now\<lparr>microsecond := microsecond now div 1000 * 1000\<rparr>))"
    by (simp only: map_of_post refl if_True millis_def)
  have 3: "k \<noteq> f \<Longrightarrow> k \<noteq> ''updated_at'' \<Longrightarrow> map_of (?post pre) k = map_of pre k" for k
    using map_of_post [of "millis now" p pre k] by (simp add: assms(1))
  have id_eq: "map_of (?post pre) ''_id'' = map_of pre ''_id''"
    using 3 [of "''_id''"] fid by simp
  have 4: "map_of (to_public s (?post pre)) k = map_of (to_public s pre) k"
    if "k \<noteq> f" "k \<noteq> ''updated_at''" for k
  proof -
    have k_eq: "map_of (?post pre) k = map_of pre k"
      using 3 that by blast
    show ?thesis
      by (simp only: map_of_to_public id_eq k_eq)
  qed
  have 5: "map_of (to_public s (?post pre)) f = Some v"
    using fid fid' 1 iso by (simp add: map_of_to_public split: option.splits)
  from 3 4 have 6: "\<forall>k. k \<noteq> f \<longrightarrow> k \<noteq> ''updated_at'' \<longrightarrow>
        (map_of (?post pre) k = map_of pre k \<and>
         map_of (to_public s (?post pre)) k = map_of (to_public s pre) k)"
    by simp
  show ?thesis
    using a(1) a(2) a(3) a(4) a(5) 1 2 5 6 a(6) by (intro exI conjI)
qed

theorem update_one_field_frame_witness:
  "model_dump_exclude_none example_update = [(''status'', VStr ''interviewing'')] \<and>
   (\<exists>r db'. update_application example_str example_now (Some [example_doc]) example_id example_update = (Inr r, db') \<and>
      (\<exists>pre post coll'. find_one example_id [example_doc] = Some pre \<and> db' = Some coll' \<and>
         find_one example_id coll' = Some post \<and> r = Response 200 (to_public example_str post) \<and>
         map_of post ''status'' = Some (VStr ''interviewing'') \<and>
         map_of post ''updated_at'' =
           Some (VDatetime \<lparr> year = 2024, month = 3, day = 7, hour = 9, minute = 5, second = 0,
                   microsecond = 123000 \<rparr>) \<and>
         map_of post ''company'' = map_of pre ''company''))"
proof -
  from example_update_ok obtain r db' where
    h: "update_application example_str example_now (Some [example_doc]) example_id example_update = (Inr r, db')"
    by (elim exE)
  from update_one_field_frame [OF example_dump h] obtain oid pre post coll' where
    a1: "ObjectId example_id = Inr oid" and a2: "find_one oid [example_doc] = Some pre" and
    a3: "db' = Some coll'" and a4: "find_one oid coll' = Some post" and
    a5: "r = Response 200 (to_public example_str post)" and
    a6: "map_of post ''status'' = Some (VStr ''interviewing'')" and
    a7: "map_of post ''updated_at'' =
       Some (VDatetime (example_now\<lparr>microsecond := microsecond example_now div 1000 * 1000\<rparr>))" and
    b: "\<forall>k. k \<noteq> ''status'' \<longrightarrow> k \<noteq> ''updated_at'' \<longrightarrow>
        (map_of post k = map_of pre k \<and>
         map_of (to_public example_str post) k = map_of (to_public example_str pre) k)"
    by (elim exE conjE)
  from a1 have oid: "oid = example_id" by (simp add: example_oid)
  from b have c: "map_of post ''company'' = map_of pre ''company''" by simp
  from a7 have a7': "map_of post ''updated_at'' =
           Some (VDatetime \<lparr> year = 2024, month = 3, day = 7, hour = 9, minute = 5, second = 0,
                   microsecond = 123000 \<rparr>)"
    by (simp add: example_now_def)
  have inner: "\<exists>pre post coll'. find_one example_id [example_doc] = Some pre \<and> db' = Some coll' \<and>
         find_one example_id coll' = Some post \<and> r = Response 200 (to_public example_str post) \<and>
         map_of post ''status'' = Some (VStr ''interviewing'') \<and>
         map_of post ''updated_at'' =
           Some (VDatetime \<lparr> year = 2024, month = 3, day = 7, hour = 9, minute = 5, second = 0,
                   microsecond = 123000 \<rparr>) \<and>
         map_of post ''company'' = map_of pre ''company''"
    using a2 [unfolded oid] a3 a4 [unfolded oid] a5 a6 a7' c by (intro exI conjI)
  have "\<exists>r db'. update_application example_str example_now (Some [example_doc]) example_id example_update = (Inr r, db') \<and>
      (\<exists>pre post coll'. find_one example_id [example_doc] = Some pre \<and> db' = Some coll' \<and>
         find_one example_id coll' = Some post \<and> r = Response 200 (to_public example_str post) \<and>
         map_of post ''status'' = Some (VStr ''interviewing'') \<and>
         map_of post ''updated_at'' =
           Some (VDatetime \<lparr> year = 2024, month = 3, day = 7, hour = 9, minute = 5, second = 0,
                   microsecond = 123000 \<rparr>) \<and>
         map_of post ''company'' = map_of pre ''company'')"
    by (rule exI [of _ r], rule exI [of _ db'], rule conjI [OF h inner])
  with example_dump show ?thesis by (rule conjI)
qed

section \<open>Absent fields and fields given as null\<close>

lemma parse_absent: "parse_update example_readers example_body_absent = Inr example_update"
  by (simp add: parse_update_def update_errors_def optional_str_def optional_float_def
      optional_list_def err_def example_update_def update_fields_def example_body_absent_def)

lemma example_update_store:
  "map_option (map (\<lambda>d. map_of d ''notes''))
     (snd (update_application example_str example_now (Some [example_doc]) example_id example_update)) =
   Some [Some (VStr ''call back'')]"
  by (simp add: update_application_def example_dump example_oid update_one_def bson_encode_def)
     (simp add: example_id_def example_doc_def has_id_def find_one_def set_fields_def)

lemma strip_example: "strip_nulls example_body_null = example_body_absent"
  by (simp add: strip_nulls_def example_body_null_def example_body_absent_def)

lemma distinct_example: "distinct (map fst example_body_null)"
  by (simp add: example_body_null_def)

lemma not_sent_no_value: "\<not> sent b k \<Longrightarrow> body_value R b k = None"
  by (cases "map_of b k") (auto simp: sent_def body_value_def split: json.splits)

text \<open>
  C1, as stated, fails: a body that gives \<open>notes\<close> as \<open>null\<close> and a body that does not
  name \<open>notes\<close> have the same outcome and leave the same collection; the stored
  \<open>notes\<close> is kept in both cases. \<open>model_dump(exclude_none=True)\<close> goes by the values.
\<close>

theorem explicit_null_counterexample:
  "map_of example_body_null ''notes'' = Some JNull \<and>
   map_of example_body_absent ''notes'' = None \<and>
   patch_application example_readers example_str example_now (Some [example_doc]) example_id
       example_body_null =
     patch_application example_readers example_str example_now (Some [example_doc]) example_id
       example_body_absent \<and>
   map_option (map (\<lambda>d. map_of d ''notes''))
     (snd (patch_application example_readers example_str example_now (Some [example_doc])
        example_id example_body_null)) = Some [Some (VStr ''call back'')]"
proof -
  have eq: "patch_application example_readers example_str example_now (Some [example_doc]) example_id
       example_body_null =
     patch_application example_readers example_str example_now (Some [example_doc]) example_id
       example_body_absent"
    using patch_null_absent [OF distinct_example] by (simp only: strip_example)
  have st: "map_option (map (\<lambda>d. map_of d ''notes''))
     (snd (patch_application example_readers example_str example_now (Some [example_doc])
        example_id example_body_absent)) = Some [Some (VStr ''call back'')]"
    by (simp add: patch_application_def parse_absent example_update_store)
  have n: "map_of example_body_null ''notes'' = Some JNull" "map_of example_body_absent ''notes'' = None"
    by (simp_all add: example_body_null_def example_body_absent_def)
  from n eq st show ?thesis by (simp only: simp_thms)
qed

text \<open>
  C1, amended: a field given as \<open>null\<close> is treated as an absent field. For a body with
  distinct keys, removing the fields given as \<open>null\<close> changes neither the outcome nor the
  store; the update document holds exactly the fields of the schema that the body gives
  a value other than \<open>null\<close>, each with the value that the body gives it; and a
  successful update assigns those values and \<open>updated_at\<close> (the clock reading, to the
  millisecond that the store keeps) and leaves every other key of the stored document
  as it was.
\<close>

theorem explicit_null_same_as_absent:
  "distinct (map fst b) \<Longrightarrow>
   patch_application R s now db app_id (strip_nulls b) = patch_application R s now db app_id b \<and>
   (\<forall>p k. parse_update R b = Inr p \<longrightarrow>
      map_of (model_dump_exclude_none p) k =
        (if k \<in> set update_fields \<and> sent b k then body_value R b k else None) \<and>
      (k \<in> set update_fields \<and> sent b k \<longrightarrow> is_set (body_value R b k))) \<and>
   (\<forall>p coll r db'. parse_update R b = Inr p \<longrightarrow>
      update_application s now (Some coll) app_id p = (Inr r, db') \<longrightarrow>
      (\<exists>oid pre post coll'.
         ObjectId app_id = Inr oid \<and> find_one oid coll = Some pre \<and> db' = Some coll' \<and>
         find_one oid coll' = Some post \<and> r = Response 200 (to_public s post) \<and>
         (\<forall>k. map_of post k =
            (if k = ''updated_at''
             then Some (VDatetime (now\<lparr>microsecond := microsecond now div 1000 * 1000\<rparr>))
             else if k \<in> set update_fields \<and> sent b k then body_value R b k
             else map_of pre k))))"
proof (intro conjI allI impI)
  assume "distinct (map fst b)"
  then show "patch_application R s now db app_id (strip_nulls b) = patch_application R s now db app_id b"
    by (rule patch_null_absent)
next
  fix p k
  assume p: "parse_update R b = Inr p"
  show "map_of (model_dump_exclude_none p) k =
        (if k \<in> set update_fields \<and> sent b k then body_value R b k else None)"
    using dump_of_body [OF p, of k] not_sent_no_value [of b k R] by auto
next
  fix p k
  assume p: "parse_update R b = Inr p" and k: "k \<in> set update_fields \<and> sent b k"
  from dump_key_iff [OF p, of k] k have "map_of (model_dump_exclude_none p) k \<noteq> None"
    by simp
  with dump_of_body [OF p, of k] k show "is_set (body_value R b k)"
    by (cases "body_value R b k") auto
next
  fix p coll r db'
  assume p: "parse_update R b = Inr p"
    and "update_application s now (Some coll) app_id p = (Inr r, db')"
  from update_application_success [OF this(2)] obtain oid pre coll' where
    a: "ObjectId app_id = Inr oid" "find_one oid coll = Some pre" "db' = Some coll'"
       "find_one oid coll' = Some (set_fields (AList.update ''updated_at'' (VDatetime (millis now)) (model_dump_exclude_none p)) pre)"
       "r = Response 200 (to_public s (set_fields (AList.update ''updated_at'' (VDatetime (millis now)) (model_dump_exclude_none p)) pre))"
    by (elim exE conjE)
  have d: "map_of (model_dump_exclude_none p) k =
        (if k \<in> set update_fields \<and> sent b k then body_value R b k else None)" for k
    using dump_of_body [OF p, of k] not_sent_no_value [of b k R] by auto
  have v: "k \<in> set update_fields \<and> sent b k \<Longrightarrow> body_value R b k \<noteq> None" for k
    using dump_key_iff [OF p, of k] d [of k] by auto
  have m: "map_of (set_fields (AList.update ''updated_at'' (VDatetime (millis now)) (model_dump_exclude_none p)) pre) k =
            (if k = ''updated_at''
             then Some (VDatetime (now\<lparr>microsecond := microsecond now div 1000 * 1000\<rparr>))
             else if k \<in> set update_fields \<and> sent b k then body_value R b k
             else map_of pre k)" for k
    using v [of k] by (auto simp: map_of_post d millis_def split: option.splits)
  show "\<exists>oid pre post coll'.
         ObjectId app_id = Inr oid \<and> find_one oid coll = Some pre \<and> db' = Some coll' \<and>
         find_one oid coll' = Some post \<and> r = Response 200 (to_public s post) \<and>
         (\<forall>k. map_of post k =
            (if k = ''updated_at''
             then Some (VDatetime (now\<lparr>microsecond := microsecond now div 1000 * 1000\<rparr>))
             else if k \<in> set update_fields \<and> sent b k then body_value R b k
             else map_of pre k))"
    using a(1) a(2) a(3) a(4) a(5) m by (intro exI conjI allI)
qed

theorem explicit_null_same_as_absent_witness:
  "distinct (map fst example_body_null) \<and>
   patch_application example_readers example_str example_now (Some [example_doc]) example_id
       (strip_nulls example_body_null) =
     patch_application example_readers example_str example_now (Some [example_doc]) example_id
       example_body_null \<and>
   parse_update example_readers example_body_absent = Inr example_update \<and>
   map_of (model_dump_exclude_none example_update) ''status'' = Some (VStr ''interviewing'') \<and>
   map_of (model_dump_exclude_none example_update) ''notes'' = None"
proof -
  note t = explicit_null_same_as_absent [OF distinct_example]
  have 1: "patch_application example_readers example_str example_now (Some [example_doc]) example_id
       (strip_nulls example_body_null) =
     patch_application example_readers example_str example_now (Some [example_doc]) example_id
       example_body_null"
    by (rule t [THEN conjunct1])
  have 2: "map_of (model_dump_exclude_none example_update) ''status'' = Some (VStr ''interviewing'')"
    "map_of (model_dump_exclude_none example_update) ''notes'' = None"
    by (simp_all add: example_dump)
  from distinct_example 1 parse_absent 2 show ?thesis by (intro conjI)
qed

section \<open>Responses and the public form\<close>



















end
